theory Spec2Isabelle
  imports Complex_Main "HOL-Library.AList"
begin

section \<open>Python values, errors and effects\<close>

text \<open>
  The repository is Python over numpy, pandas and scikit-learn. An exception is a value of
  type \<open>error\<close>; a computation that calls out to a collaborator takes the trace of
  calls made so far and returns its outcome together with the extended trace, so that
  what was called, with which arguments and how often, can be read off afterwards.
  Printing to standard output is not recorded.
\<close>

datatype error =
    TypeError string
  | AttributeError string
  | UnboundLocalError string
  | KeyError string
  | ValueError string
  | IndexError string
  | Raised string

type_synonym ('a, 's) prog = "'s \<Rightarrow> (error + 'a) \<times> 's"

definition ok :: "'a \<Rightarrow> ('a, 's) prog" where
  "ok v s = (Inr v, s)"

definition throw :: "error \<Rightarrow> ('a, 's) prog" where
  "throw e s = (Inl e, s)"

definition andthen :: "('a, 's) prog \<Rightarrow> ('a \<Rightarrow> ('b, 's) prog) \<Rightarrow> ('b, 's) prog" where
  "andthen p f s = (case p s of (Inl e, s') \<Rightarrow> (Inl e, s') | (Inr v, s') \<Rightarrow> f v s')"

text \<open>A call to a collaborator: the event is appended to the trace, the outcome returned.\<close>

definition invoke :: "'ev \<Rightarrow> error + 'a \<Rightarrow> ('a, 'ev list) prog" where
  "invoke ev r s = (r, s @ [ev])"

subsection \<open>numpy arrays\<close>

text \<open>
  An array is its shape, its element type tag and its elements in row-major order.
  Floating-point elements are idealised as rationals; nothing below computes with them
  except the scalar product and the rounding of the sweep.
\<close>

datatype dtype =
    Bool | Int8 | Int16 | Int32 | Int64 | UInt8 | UInt16 | UInt32 | UInt64
  | Float16 | Float32 | Float64 | LongDouble | Complex64 | Complex128 | Object

text \<open>numpy's own classification (\<open>np.issubdtype(t, np.floating)\<close>, \<open>np.integer\<close>).\<close>

fun is_floating :: "dtype \<Rightarrow> bool" where
  "is_floating Float16 = True"
| "is_floating Float32 = True"
| "is_floating Float64 = True"
| "is_floating LongDouble = True"
| "is_floating _ = False"

fun is_integer :: "dtype \<Rightarrow> bool" where
  "is_integer Int8 = True"
| "is_integer Int16 = True"
| "is_integer Int32 = True"
| "is_integer Int64 = True"
| "is_integer UInt8 = True"
| "is_integer UInt16 = True"
| "is_integer UInt32 = True"
| "is_integer UInt64 = True"
| "is_integer _ = False"

record ndarray =
  shape :: "nat list"
  dtype :: dtype
  data :: "rat list"

definition ndim :: "ndarray \<Rightarrow> nat" where
  "ndim a = length (shape a)"

text \<open>\<open>a.squeeze()\<close> removes every axis of length one.\<close>

definition squeeze :: "ndarray \<Rightarrow> ndarray" where
  "squeeze a = a\<lparr>shape := filter (\<lambda>n. n \<noteq> 1) (shape a)\<rparr>"

text \<open>\<open>a[:, np.newaxis]\<close> inserts an axis of length one after the first axis.\<close>

definition newaxis1 :: "ndarray \<Rightarrow> ndarray" where
  "newaxis1 a = a\<lparr>shape := take 1 (shape a) @ [1] @ drop 1 (shape a)\<rparr>"

text \<open>\<open>np.unique(a)\<close>: the distinct elements (here unsorted; only their number is read).\<close>

definition unique :: "ndarray \<Rightarrow> rat list" where
  "unique a = remdups (data a)"

subsection \<open>Keyword dictionaries and data frames\<close>

datatype pyval = PyFloat rat | PyBool bool | PyStr string | PyNone

type_synonym kws = "(string \<times> pyval) list"

text \<open>
  A pandas table: its column labels in order, and its rows in order, each row an
  association list from column label to cell. A label with no entry in a row is a
  missing cell (NaN).
\<close>

record 'v dataframe =
  df_columns :: "string list"
  df_rows :: "(string \<times> 'v) list list"

definition column :: "string \<Rightarrow> 'v dataframe \<Rightarrow> 'v option list" where
  "column c df = map (\<lambda>r. map_of r c) (df_rows df)"

section \<open>conn2res/task.py\<close>

subsection \<open>Collaborators: scikit-learn estimators and the performance module\<close>

text \<open>
  An estimator object is a value of type \<open>'m\<close>. \<open>fit\<close> mutates the estimator in place;
  here it returns the estimator's new state. Every collaborator call may raise.
  The module \<open>performance\<close> is not part of the sources at hand: it is a parameter, a
  partial map from attribute names to metric functions.
\<close>

record ('m, 'v) sklearn =
  Ridge :: "kws \<Rightarrow> error + 'm"
  RidgeClassifier :: "kws \<Rightarrow> error + 'm"
  sk_fit :: "'m \<Rightarrow> ndarray \<Rightarrow> ndarray \<Rightarrow> ndarray option \<Rightarrow> error + 'm"
  sk_predict :: "'m \<Rightarrow> ndarray \<Rightarrow> error + ndarray"
  sk_score :: "'m \<Rightarrow> ndarray \<Rightarrow> ndarray \<Rightarrow> ndarray option \<Rightarrow> error + 'v"

type_synonym 'v metric_fn = "ndarray \<Rightarrow> ndarray \<Rightarrow> ndarray option \<Rightarrow> kws \<Rightarrow> error + 'v"

type_synonym 'v performance = "string \<Rightarrow> 'v metric_fn option"

datatype 'm event =
    EvRidge kws
  | EvRidgeClassifier kws
  | EvFit 'm ndarray ndarray "ndarray option"
  | EvScore 'm ndarray ndarray "ndarray option"
  | EvGetattr string
  | EvPredict 'm ndarray
  | EvMetric string ndarray ndarray "ndarray option" kws

fun is_fit :: "'m event \<Rightarrow> bool" where
  "is_fit (EvFit m x y sw) = True"
| "is_fit _ = False"

text \<open>\<open>getattr(performance, metric)\<close>: a missing attribute raises \<open>AttributeError\<close>.\<close>

definition getattr_performance :: "'v performance \<Rightarrow> string \<Rightarrow> ('v metric_fn, 'm event list) prog" where
  "getattr_performance performance metric =
     invoke (EvGetattr metric)
       (case performance metric of
          None \<Rightarrow> Inl (AttributeError metric)
        | Some func \<Rightarrow> Inr func)"

subsection \<open>check_xy_dims\<close>

definition check_xy_dims ::
  "ndarray \<times> ndarray \<Rightarrow> ndarray \<times> ndarray \<Rightarrow> ndarray \<times> ndarray \<times> ndarray \<times> ndarray" where
  "check_xy_dims x y =
     (let (x_train, x_test) = x;
          (y_train, y_test) = y;
          (x_train, x_test) =
            (if ndim x_train = 1 \<and> ndim x_test = 1
               then (newaxis1 x_train, newaxis1 x_test)
             else if ndim x_train > 2 \<and> ndim x_test > 2
               then (squeeze x_train, squeeze x_test)
             else (x_train, x_test));
          y_train = squeeze y_train;
          y_test = squeeze y_test
      in (x_train, x_test, y_train, y_test))"

subsection \<open>regression and classification\<close>

definition regression_model_kws :: kws where
  "regression_model_kws = [(''alpha'', PyFloat (1 / 2)), (''fit_intercept'', PyBool True)]"

definition regression_metric_kws :: kws where
  "regression_metric_kws = [(''multioutput'', PyStr ''uniform_average'')]"

definition classification_model_kws :: kws where
  "classification_model_kws = [(''alpha'', PyFloat (1 / 2)), (''fit_intercept'', PyBool True)]"

definition classification_metric_kws :: kws where
  "classification_metric_kws = []"

text \<open>
  The parameters are those of the Python function; \<open>sample_weight\<close> is the pair popped
  from \<open>**kwargs\<close>, already defaulted to \<open>(None, None)\<close> by the caller below.
\<close>

definition regression ::
  "('m, 'v) sklearn \<Rightarrow> 'v performance \<Rightarrow> ndarray \<times> ndarray \<Rightarrow> ndarray \<times> ndarray \<Rightarrow>
   'm option \<Rightarrow> string \<Rightarrow> kws \<Rightarrow> kws \<Rightarrow> ndarray option \<times> ndarray option \<Rightarrow>
   ('v \<times> 'm, 'm event list) prog" where
  "regression sk performance x y model metric model_kws metric_kws sample_weight =
     (let (sample_weight_train, sample_weight_test) = sample_weight;
          (x_train, x_test) = x;
          (y_train, y_test) = y
      in andthen (case model of
                    None \<Rightarrow> invoke (EvRidge model_kws) (Ridge sk model_kws)
                  | Some m \<Rightarrow> ok m)
        (\<lambda>model. andthen (invoke (EvFit model x_train y_train sample_weight_train)
                            (sk_fit sk model x_train y_train sample_weight_train))
        (\<lambda>model. andthen
           (if metric = ''score''
              then invoke (EvScore model x_test y_test sample_weight_test)
                     (sk_score sk model x_test y_test sample_weight_test)
            else andthen (getattr_performance performance metric)
              (\<lambda>func. andthen (invoke (EvPredict model x_test) (sk_predict sk model x_test))
              (\<lambda>y_pred. invoke (EvMetric metric y_test y_pred sample_weight_test metric_kws)
                           (func y_test y_pred sample_weight_test metric_kws))))
        (\<lambda>metric_value. ok (metric_value, model)))))"

definition classification ::
  "('m, 'v) sklearn \<Rightarrow> 'v performance \<Rightarrow> ndarray \<times> ndarray \<Rightarrow> ndarray \<times> ndarray \<Rightarrow>
   'm option \<Rightarrow> string \<Rightarrow> kws \<Rightarrow> kws \<Rightarrow> ndarray option \<times> ndarray option \<Rightarrow>
   ('v \<times> 'm, 'm event list) prog" where
  "classification sk performance x y model metric model_kws metric_kws sample_weight =
     (let (sample_weight_train, sample_weight_test) = sample_weight;
          (x_train, x_test) = x;
          (y_train, y_test) = y
      in andthen (case model of
                    None \<Rightarrow> invoke (EvRidgeClassifier model_kws) (RidgeClassifier sk model_kws)
                  | Some m \<Rightarrow> ok m)
        (\<lambda>model. andthen (invoke (EvFit model x_train y_train sample_weight_train)
                            (sk_fit sk model x_train y_train sample_weight_train))
        (\<lambda>model. andthen
           (if metric = ''score''
              then invoke (EvScore model x_test y_test sample_weight_test)
                     (sk_score sk model x_test y_test sample_weight_test)
            else andthen (getattr_performance performance metric)
              (\<lambda>func. andthen (invoke (EvPredict model x_test) (sk_predict sk model x_test))
              (\<lambda>y_pred. invoke (EvMetric metric y_test y_pred sample_weight_test metric_kws)
                           (func y_test y_pred sample_weight_test metric_kws))))
        (\<lambda>metric_value. ok (metric_value, model)))))"

subsection \<open>select_model\<close>

text \<open>
  The value returned is one of the two functions above, or Python's \<open>None\<close> when the
  function falls off its end.
\<close>

datatype strategy = Regression | Classification

definition select_model :: "ndarray \<Rightarrow> strategy option" where
  "select_model y =
     (if dtype y \<in> set [Float32, Float64] then
        (if ndim (squeeze y) = 1 then Some Regression
         else Some Regression)
      else if dtype y \<in> set [Int32, Int64] then
        (if ndim (squeeze y) = 1 then
           (if length (unique y) = 2 then Some Classification
            else Some Classification)
         else Some Classification)
      else None)"

subsection \<open>run_task\<close>

text \<open>
  The keyword arguments \<open>run_task\<close> passes on unchanged to the selected function. A key
  that is absent is \<open>None\<close> here and takes the default of the function called.
\<close>

record 'm kwargs =
  kw_model :: "'m option"
  kw_model_kws :: "kws option"
  kw_metric_kws :: "kws option"
  kw_sample_weight :: "(ndarray option \<times> ndarray option) option"

definition or_default :: "'a option \<Rightarrow> 'a \<Rightarrow> 'a" where
  "or_default v d = (case v of None \<Rightarrow> d | Some w \<Rightarrow> w)"

text \<open>\<open>func(x=..., y=..., metric=m, **kwargs)\<close> for \<open>func\<close> the value of \<open>select_model\<close>.\<close>

definition call_func ::
  "strategy option \<Rightarrow> ('m, 'v) sklearn \<Rightarrow> 'v performance \<Rightarrow> ndarray \<times> ndarray \<Rightarrow>
   ndarray \<times> ndarray \<Rightarrow> string \<Rightarrow> 'm kwargs \<Rightarrow> ('v \<times> 'm, 'm event list) prog" where
  "call_func func sk performance x y metric kwargs =
     (case func of
        None \<Rightarrow> throw (TypeError ''NoneType object is not callable'')
      | Some Regression \<Rightarrow>
          regression sk performance x y (kw_model kwargs) metric
            (or_default (kw_model_kws kwargs) regression_model_kws)
            (or_default (kw_metric_kws kwargs) regression_metric_kws)
            (or_default (kw_sample_weight kwargs) (None, None))
      | Some Classification \<Rightarrow>
          classification sk performance x y (kw_model kwargs) metric
            (or_default (kw_model_kws kwargs) classification_model_kws)
            (or_default (kw_metric_kws kwargs) classification_metric_kws)
            (or_default (kw_sample_weight kwargs) (None, None)))"

text \<open>
  The loop \<open>for m in metric\<close>. Its variables are the dictionary \<open>metrics\<close> and \<open>model\<close>,
  which is unbound until the first iteration has run. An estimator passed in by the
  caller is one object, refitted in place by each iteration: the next iteration receives
  it in the state the last fit left it in.
\<close>

definition refitted :: "'m kwargs \<Rightarrow> 'm \<Rightarrow> 'm kwargs" where
  "refitted kwargs model =
     (case kw_model kwargs of None \<Rightarrow> kwargs | Some m \<Rightarrow> kwargs\<lparr>kw_model := Some model\<rparr>)"

fun run_task_loop ::
  "strategy option \<Rightarrow> ('m, 'v) sklearn \<Rightarrow> 'v performance \<Rightarrow> ndarray \<times> ndarray \<Rightarrow>
   ndarray \<times> ndarray \<Rightarrow> 'm kwargs \<Rightarrow> string list \<Rightarrow> (string \<times> 'v) list \<times> 'm option \<Rightarrow>
   ((string \<times> 'v) list \<times> 'm option, 'm event list) prog" where
  "run_task_loop func sk performance x y kwargs [] vars = ok vars"
| "run_task_loop func sk performance x y kwargs (m # ms) vars =
     andthen (call_func func sk performance x y m kwargs)
       (\<lambda>(metric_value, model).
          run_task_loop func sk performance x y (refitted kwargs model) ms
            (AList.update m metric_value (fst vars), Some model))"

text \<open>The argument \<open>metric\<close> is one name or a sequence of names.\<close>

datatype metric_arg = MetricStr string | MetricSeq "string list"

fun metric_names :: "metric_arg \<Rightarrow> string list" where
  "metric_names (MetricStr m) = [m]"
| "metric_names (MetricSeq ms) = ms"

text \<open>\<open>pd.DataFrame(data=metrics, index=[0])\<close>: one row, one column per key.\<close>

definition DataFrame_row :: "(string \<times> 'v) list \<Rightarrow> 'v dataframe" where
  "DataFrame_row metrics = \<lparr>df_columns = map fst metrics, df_rows = [metrics]\<rparr>"

definition run_task ::
  "('m, 'v) sklearn \<Rightarrow> 'v performance \<Rightarrow> ndarray \<times> ndarray \<Rightarrow> ndarray \<times> ndarray \<Rightarrow>
   metric_arg \<Rightarrow> 'm kwargs \<Rightarrow> ('v dataframe \<times> 'm, 'm event list) prog" where
  "run_task sk performance reservoir_states target metric kwargs =
     (let (x_train, x_test, y_train, y_test) = check_xy_dims reservoir_states target;
          func = select_model y_train;
          metric = metric_names metric
      in andthen (run_task_loop func sk performance (x_train, x_test) (y_train, y_test)
                    kwargs metric ([], None))
        (\<lambda>(metrics, model).
           let df_res = DataFrame_row metrics
           in (case model of
                 None \<Rightarrow> throw (UnboundLocalError ''model'')
               | Some model \<Rightarrow> ok (df_res, model))))"

section \<open>examples/example1_sims.py\<close>

subsection \<open>Strings, paths and numbers\<close>




text \<open>\<open>f'{filename}'\<close> where \<open>filename\<close> may be \<open>None\<close>.\<close>

definition str_opt :: "string option \<Rightarrow> string" where
  "str_opt v = (case v of None \<Rightarrow> ''None'' | Some t \<Rightarrow> t)"

text \<open>\<open>os.path.join(a, b)\<close> on POSIX.\<close>

definition path_join :: "string \<Rightarrow> string \<Rightarrow> string" where
  "path_join a b =
     (if b \<noteq> [] \<and> hd b = CHR ''/'' then b
      else if a = [] \<or> last a = CHR ''/'' then a @ b
      else a @ ''/'' @ b)"

text \<open>\<open>np.linspace(start, stop, num)\<close> for \<open>num > 1\<close>, over the rationals.\<close>

definition linspace :: "rat \<Rightarrow> rat \<Rightarrow> nat \<Rightarrow> rat list" where
  "linspace start stop num =
     map (\<lambda>i. start + of_nat i * ((stop - start) / of_nat (num - 1))) [0..<num]"

text \<open>\<open>np.round(x, decimals)\<close>: to the nearest multiple of \<open>10 ^ -decimals\<close>, ties to even.\<close>

definition np_round :: "rat \<Rightarrow> nat \<Rightarrow> rat" where
  "np_round x decimals =
     (let scaled = x * 10 ^ decimals;
          lower = \<lfloor>scaled\<rfloor>;
          rest = scaled - of_int lower
      in of_int (if rest < 1 / 2 then lower
                 else if rest > 1 / 2 then lower + 1
                 else if even lower then lower else lower + 1) / 10 ^ decimals)"

text \<open>
  \<open>alpha * w\<close> for a scalar and an array: a new array, every element multiplied.
  The promotion of the element type is not modelled.
\<close>

definition np_scale :: "rat \<Rightarrow> ndarray \<Rightarrow> ndarray" where
  "np_scale alpha w = w\<lparr>data := map (\<lambda>v. alpha * v) (data w)\<rparr>"

subsection \<open>pandas operations\<close>

datatype cell = Num rat | Str string

text \<open>\<open>df[c] = v\<close> for a scalar \<open>v\<close>.\<close>

definition set_column :: "string \<Rightarrow> 'v \<Rightarrow> 'v dataframe \<Rightarrow> 'v dataframe" where
  "set_column c v df =
     \<lparr>df_columns = (if c \<in> set (df_columns df) then df_columns df else df_columns df @ [c]),
      df_rows = map (AList.update c v) (df_rows df)\<rparr>"

text \<open>\<open>pd.concat(dfs, ignore_index=True)\<close>: the rows in order, the columns united.\<close>

definition pd_concat :: "'v dataframe list \<Rightarrow> error + 'v dataframe" where
  "pd_concat dfs =
     (if dfs = [] then Inl (ValueError ''No objects to concatenate'')
      else Inr \<lparr>df_columns = rev (remdups (rev (concat (map df_columns dfs)))),
                df_rows = concat (map df_rows dfs)\<rparr>)"

text \<open>\<open>df[cols]\<close> for a list of labels: a label that is no column raises \<open>KeyError\<close>.\<close>

definition select_columns :: "string list \<Rightarrow> 'v dataframe \<Rightarrow> error + 'v dataframe" where
  "select_columns cols df =
     (case filter (\<lambda>c. c \<notin> set (df_columns df)) cols of
        [] \<Rightarrow> Inr \<lparr>df_columns = cols,
                   df_rows = map (filter (\<lambda>kv. fst kv \<in> set cols)) (df_rows df)\<rparr>
      | c # cs \<Rightarrow> Inl (KeyError c))"

subsection \<open>Collaborators\<close>

text \<open>
  Modelled from the spec: the classes \<open>Conn\<close>, \<open>EchoStateNetwork\<close> and \<open>Readout\<close> and
  the functions \<open>readout.select_model\<close> and \<open>readout.train_test_split\<close> are imported from
  modules that are not among the sources at hand, so they are parameters, with the
  signatures the call sites and the spec's list of external interfaces give them. A method that mutates
  its object returns the object's new state. The simulator reads the weights \<open>esn.w\<close>
  that the workflow assigns and may update the rest of its object, but does not assign
  \<open>esn.w\<close> itself. The rewiring is random: it draws on a source \<open>'g\<close> that belongs to the
  process calling it.
\<close>

record ('c, 'e, 'est, 'ro, 'g) collab =
  Conn :: "ndarray \<Rightarrow> error + 'c"
  randomize :: "'g \<Rightarrow> 'c \<Rightarrow> nat \<Rightarrow> error + 'c"
  scale_and_normalize :: "'c \<Rightarrow> error + 'c"
  get_nodes :: "'c \<Rightarrow> string \<Rightarrow> error + nat list"
  conn_w :: "'c \<Rightarrow> ndarray"
  conn_n_nodes :: "'c \<Rightarrow> nat"
  EchoStateNetwork :: "ndarray \<Rightarrow> string \<Rightarrow> error + 'e"
  simulate :: "ndarray \<Rightarrow> 'e \<Rightarrow> ndarray \<Rightarrow> ndarray \<Rightarrow> nat list \<Rightarrow> error + ndarray \<times> 'e"
  readout_select_model :: "ndarray \<Rightarrow> error + 'est"
  Readout :: "'est \<Rightarrow> error + 'ro"
  train_test_split :: "ndarray \<Rightarrow> ndarray \<Rightarrow> error + ndarray \<times> ndarray \<times> ndarray \<times> ndarray"
  readout_run_task ::
    "'ro \<Rightarrow> ndarray \<times> ndarray \<Rightarrow> ndarray \<times> ndarray \<Rightarrow> string list \<Rightarrow> ndarray \<Rightarrow> kws \<Rightarrow>
     error + cell dataframe \<times> 'ro"
  np_load :: "string \<Rightarrow> error + ndarray"

record 'e esn =
  esn_w :: ndarray
  esn_rest :: 'e

text \<open>The module's globals that come from the file system.\<close>

record globals =
  DATA_DIR :: string
  OUTPUT_DIR :: string
  RSN_MAPPING :: ndarray


definition METRIC :: "string list" where
  "METRIC = [''corrcoef'']"

definition metric_kwargs :: kws where
  "metric_kwargs = [(''multioutput'', PyStr ''sum''), (''nonnegative'', PyStr ''absolute'')]"

definition ALPHAS :: "rat list" where
  "ALPHAS = drop 1 (linspace 0 2 41)"

subsection \<open>The world: files written and calls made\<close>

datatype wf_event =
    EvConn ndarray
  | EvRandomize nat
  | EvScaleAndNormalize
  | EvGetNodes string
  | EvEchoStateNetwork ndarray string
  | EvSelectModel ndarray
  | EvReadout
  | EvTrainTestSplit ndarray ndarray
  | EvSimulate ndarray ndarray ndarray "nat list"
  | EvRunTask "ndarray \<times> ndarray" "ndarray \<times> ndarray"
  | EvToCsv string
  | EvLoad string
  | EvPool nat
  | EvApplyAsync string
  | EvGet string
  | EvPoolClose

record world =
  files :: "(string \<times> cell dataframe) list"
  trace :: "wf_event list"

definition invoke_w :: "wf_event \<Rightarrow> error + 'a \<Rightarrow> ('a, world) prog" where
  "invoke_w ev r s = (r, s\<lparr>trace := trace s @ [ev]\<rparr>)"

definition lift :: "error + 'a \<Rightarrow> ('a, 's) prog" where
  "lift r s = (r, s)"

text \<open>\<open>df.to_csv(path, index=False)\<close>: the table becomes the content of the file.\<close>

definition to_csv :: "string \<Rightarrow> cell dataframe \<Rightarrow> (unit, world) prog" where
  "to_csv path df s =
     (Inr (), s\<lparr>files := AList.update path df (files s), trace := trace s @ [EvToCsv path]\<rparr>)"

subsection \<open>run_workflow\<close>

text \<open>
  \<open>w_in = np.zeros((1, n_nodes)); w_in[:, input_nodes] = np.eye(1)\<close>: an index beyond
  the last column raises \<open>IndexError\<close>.
\<close>

definition make_w_in :: "nat \<Rightarrow> nat list \<Rightarrow> error + ndarray" where
  "make_w_in n_nodes input_nodes =
     (if \<exists>j \<in> set input_nodes. n_nodes \<le> j then Inl (IndexError ''index out of bounds'')
      else Inr \<lparr>shape = [1, n_nodes], dtype = Float64,
                data = map (\<lambda>j. if j \<in> set input_nodes then 1 else 0) [0..<n_nodes]\<rparr>)"

text \<open>
  The loop \<open>for alpha in ALPHAS\<close>. Its variables are the list \<open>df_alpha\<close>, the simulator
  object \<open>esn\<close> and the readout object; \<open>conn\<close> is only read.
\<close>

fun sweep ::
  "('c, 'e, 'est, 'ro, 'g) collab \<Rightarrow> globals \<Rightarrow> 'c \<Rightarrow> ndarray \<Rightarrow> nat list \<Rightarrow>
   ndarray \<Rightarrow> ndarray \<Rightarrow> ndarray \<Rightarrow> ndarray \<Rightarrow> rat list \<Rightarrow>
   cell dataframe list \<times> 'e esn \<times> 'ro \<Rightarrow>
   (cell dataframe list \<times> 'e esn \<times> 'ro, world) prog" where
  "sweep col glob conn w_in output_nodes x_train x_test y_train y_test [] vars = ok vars"
| "sweep col glob conn w_in output_nodes x_train x_test y_train y_test (alpha # alphas)
     (df_alpha, esn, readout_module) =
     (let esn = esn\<lparr>esn_w := np_scale alpha (conn_w col conn)\<rparr>
      in andthen (invoke_w (EvSimulate (esn_w esn) x_train w_in output_nodes)
                   (simulate col (esn_w esn) (esn_rest esn) x_train w_in output_nodes))
        (\<lambda>(rs_train, rest).
      let esn = esn\<lparr>esn_rest := rest\<rparr>
      in andthen (invoke_w (EvSimulate (esn_w esn) x_test w_in output_nodes)
                   (simulate col (esn_w esn) (esn_rest esn) x_test w_in output_nodes))
        (\<lambda>(rs_test, rest).
      let esn = esn\<lparr>esn_rest := rest\<rparr>
      in andthen (invoke_w (EvRunTask (rs_train, rs_test) (y_train, y_test))
                   (readout_run_task col readout_module (rs_train, rs_test) (y_train, y_test)
                      METRIC (RSN_MAPPING glob) metric_kwargs))
        (\<lambda>(df_res, readout_module).
      let df_res = set_column ''alpha'' (Num (np_round alpha 3)) df_res
      in sweep col glob conn w_in output_nodes x_train x_test y_train y_test alphas
           (df_alpha @ [df_res], esn, readout_module)))))"

definition scores_path :: "globals \<Rightarrow> string option \<Rightarrow> string" where
  "scores_path glob filename = path_join (OUTPUT_DIR glob) (str_opt filename @ ''_scores.csv'')"

definition run_workflow ::
  "('c, 'e, 'est, 'ro, 'g) collab \<Rightarrow> globals \<Rightarrow> 'g \<Rightarrow> ndarray \<Rightarrow> ndarray \<Rightarrow> ndarray \<Rightarrow>
   bool \<Rightarrow> string option \<Rightarrow> (unit, world) prog" where
  "run_workflow col glob g w x y rewire filename =
     andthen (invoke_w (EvConn w) (Conn col w))
       (\<lambda>conn. andthen (if rewire then invoke_w (EvRandomize 10) (randomize col g conn 10)
                         else ok conn)
       (\<lambda>conn. andthen (invoke_w EvScaleAndNormalize (scale_and_normalize col conn))
       (\<lambda>conn. andthen (invoke_w (EvGetNodes ''subctx'') (get_nodes col conn ''subctx''))
       (\<lambda>input_nodes. andthen (invoke_w (EvGetNodes ''ctx'') (get_nodes col conn ''ctx''))
       (\<lambda>output_nodes. andthen (lift (make_w_in (conn_n_nodes col conn) input_nodes))
       (\<lambda>w_in. andthen (invoke_w (EvEchoStateNetwork (conn_w col conn) ''tanh'')
                          (EchoStateNetwork col (conn_w col conn) ''tanh''))
       (\<lambda>rest. let esn = \<lparr>esn_w = conn_w col conn, esn_rest = rest\<rparr>
        in andthen (invoke_w (EvSelectModel y) (readout_select_model col y))
       (\<lambda>estimator. andthen (invoke_w EvReadout (Readout col estimator))
       (\<lambda>readout_module. andthen (invoke_w (EvTrainTestSplit x y) (train_test_split col x y))
       (\<lambda>(x_train, x_test, y_train, y_test).
          andthen (sweep col glob conn w_in output_nodes x_train x_test y_train y_test ALPHAS
                     ([], esn, readout_module))
       (\<lambda>(df_alpha, esn, readout_module). andthen (lift (pd_concat df_alpha))
       (\<lambda>df_alpha. andthen
          (lift (select_columns [''alpha'', ''module'', ''n_nodes'', METRIC ! 0] df_alpha))
       (\<lambda>df_alpha. to_csv (scores_path glob filename) df_alpha)))))))))))))"

subsection \<open>run_experiment\<close>






section \<open>Auxiliary notions for the statements\<close>

text \<open>The construction event emitted when no estimator was passed in.\<close>

definition made :: "'m option \<Rightarrow> 'm event \<Rightarrow> 'm event list" where
  "made model ev = (case model of None \<Rightarrow> [ev] | Some m \<Rightarrow> [])"

fun is_new :: "'m event \<Rightarrow> bool" where
  "is_new (EvRidge k) = True"
| "is_new (EvRidgeClassifier k) = True"
| "is_new _ = False"

text \<open>The estimator a scoring call works on, and the estimator a fit leaves behind.\<close>

fun scoring_model :: "'m event \<Rightarrow> 'm list" where
  "scoring_model (EvScore m x y sw) = [m]"
| "scoring_model (EvPredict m x) = [m]"
| "scoring_model _ = []"

fun fitted :: "('m, 'v) sklearn \<Rightarrow> 'm event \<Rightarrow> 'm list" where
  "fitted sk (EvFit m x y sw) = (case sk_fit sk m x y sw of Inl e \<Rightarrow> [] | Inr m' \<Rightarrow> [m'])"
| "fitted sk _ = []"

text \<open>The training half of the \<open>sample_weight\<close> pair the strategy functions pop.\<close>

definition sw_train_of :: "'m kwargs \<Rightarrow> ndarray option" where
  "sw_train_of kwargs = fst (or_default (kw_sample_weight kwargs) (None, None))"


subsection \<open>Stand-ins for the collaborators, for concrete runs\<close>

text \<open>
  An estimator that counts how often it has been fitted and reports that count as its
  score; one registered metric.
\<close>

definition stub_sklearn :: "(nat, nat) sklearn" where
  "stub_sklearn =
     \<lparr>Ridge = (\<lambda>k. Inr 0), RidgeClassifier = (\<lambda>k. Inr 0),
      sk_fit = (\<lambda>m x y sw. Inr (Suc m)),
      sk_predict = (\<lambda>m x. Inr x),
      sk_score = (\<lambda>m x y sw. Inr m)\<rparr>"

definition stub_performance :: "nat performance" where
  "stub_performance =
     (\<lambda>n. if n = ''r2_score'' then Some (\<lambda>y_true y_pred sw k. Inr (length (data y_pred)))
          else None)"

definition no_kwargs :: "nat kwargs" where
  "no_kwargs = \<lparr>kw_model = None, kw_model_kws = None, kw_metric_kws = None,
                 kw_sample_weight = None\<rparr>"

definition vec :: "dtype \<Rightarrow> rat list \<Rightarrow> ndarray" where
  "vec t d = \<lparr>shape = [length d], dtype = t, data = d\<rparr>"

definition col_matrix :: "dtype \<Rightarrow> rat list \<Rightarrow> ndarray" where
  "col_matrix t d = \<lparr>shape = [length d, 1], dtype = t, data = d\<rparr>"

subsection \<open>Reading a workflow trace\<close>

fun tocsv_path :: "wf_event \<Rightarrow> string list" where
  "tocsv_path (EvToCsv p) = [p]"
| "tocsv_path _ = []"

definition tocsv_paths :: "wf_event list \<Rightarrow> string list" where
  "tocsv_paths evs = concat (map tocsv_path evs)"

fun is_split :: "wf_event \<Rightarrow> bool" where
  "is_split (EvTrainTestSplit x y) = True"
| "is_split _ = False"

fun is_simulate :: "wf_event \<Rightarrow> bool" where
  "is_simulate (EvSimulate w x w_in out) = True"
| "is_simulate _ = False"

fun is_run_task :: "wf_event \<Rightarrow> bool" where
  "is_run_task (EvRunTask X Y) = True"
| "is_run_task _ = False"

fun is_randomize :: "wf_event \<Rightarrow> bool" where
  "is_randomize (EvRandomize n) = True"
| "is_randomize _ = False"

fun is_pool_event :: "wf_event \<Rightarrow> bool" where
  "is_pool_event (EvPool n) = True"
| "is_pool_event (EvApplyAsync f) = True"
| "is_pool_event (EvGet f) = True"
| "is_pool_event EvPoolClose = True"
| "is_pool_event _ = False"

text \<open>The weights a simulation was run with.\<close>

fun simulate_w :: "wf_event \<Rightarrow> ndarray list" where
  "simulate_w (EvSimulate w x w_in out) = [w]"
| "simulate_w _ = []"

text \<open>
  The calls of a sweep over \<open>alphas\<close> on the fixed weights \<open>w\<close>, given the states
  \<open>Xs\<close> the simulator returned.
\<close>

definition sweep_events ::
  "ndarray \<Rightarrow> ndarray \<Rightarrow> nat list \<Rightarrow> ndarray \<Rightarrow> ndarray \<Rightarrow> ndarray \<Rightarrow> ndarray \<Rightarrow>
   rat list \<Rightarrow> (ndarray \<times> ndarray) list \<Rightarrow> wf_event list" where
  "sweep_events w w_in output_nodes x_train x_test y_train y_test alphas Xs =
     concat (map2 (\<lambda>alpha X.
       [EvSimulate (np_scale alpha w) x_train w_in output_nodes,
        EvSimulate (np_scale alpha w) x_test w_in output_nodes,
        EvRunTask X (y_train, y_test)]) alphas Xs)"

text \<open>The calls of a workflow before it splits the data.\<close>

definition workflow_prelude :: "ndarray \<Rightarrow> bool \<Rightarrow> ndarray \<Rightarrow> ndarray \<Rightarrow> wf_event list" where
  "workflow_prelude w rewire wb y =
     [EvConn w] @ (if rewire then [EvRandomize 10] else []) @
     [EvScaleAndNormalize, EvGetNodes ''subctx'', EvGetNodes ''ctx'',
      EvEchoStateNetwork wb ''tanh'', EvSelectModel y, EvReadout]"

text \<open>A call inside the sweep works on the given train/test partition.\<close>

fun uses_partition :: "ndarray \<Rightarrow> ndarray \<Rightarrow> ndarray \<Rightarrow> ndarray \<Rightarrow> wf_event \<Rightarrow> bool" where
  "uses_partition xtr xte ytr yte (EvSimulate w xi w_in out) = (xi = xtr \<or> xi = xte)"
| "uses_partition xtr xte ytr yte (EvRunTask X Y) = (Y = (ytr, yte))"
| "uses_partition xtr xte ytr yte _ = True"



subsection \<open>Stand-ins for the workflow's collaborators\<close>

definition stub_table :: "cell dataframe" where
  "stub_table =
     \<lparr>df_columns = [''module'', ''n_nodes'', ''corrcoef''],
      df_rows = [[(''module'', Str ''VIS''), (''n_nodes'', Num 1), (''corrcoef'', Num 1)],
                 [(''module'', Str ''SM''), (''n_nodes'', Num 1), (''corrcoef'', Num 0)]]\<rparr>"

definition stub_collab :: "(ndarray, unit, unit, unit, unit) collab" where
  "stub_collab =
     \<lparr>Conn = (\<lambda>w. Inr w),
      randomize = (\<lambda>g c n. Inr c),
      scale_and_normalize = (\<lambda>c. Inr c),
      get_nodes = (\<lambda>c s. Inr (if s = ''subctx'' then [0] else [1])),
      conn_w = (\<lambda>c. c),
      conn_n_nodes = (\<lambda>c. 2),
      EchoStateNetwork = (\<lambda>w a. Inr ()),
      simulate = (\<lambda>w e x w_in out. Inr (x, ())),
      readout_select_model = (\<lambda>y. Inr ()),
      Readout = (\<lambda>e. Inr ()),
      train_test_split = (\<lambda>x y. Inr (x, x, y, y)),
      readout_run_task = (\<lambda>ro X Y ms mods kw. Inr (stub_table, ())),
      np_load = (\<lambda>p. Inr \<lparr>shape = [2, 2], dtype = Float64, data = [0, 1, 1, 0]\<rparr>)\<rparr>"

definition stub_globals :: globals where
  "stub_globals = \<lparr>DATA_DIR = ''data'', OUTPUT_DIR = ''results'', RSN_MAPPING = vec Int64 [1, 2]\<rparr>"

definition empty_world :: world where
  "empty_world = \<lparr>files = [], trace = []\<rparr>"

section \<open>Properties of conn2res/task.py\<close>

subsection \<open>Running the effects\<close>

lemma andthen_ok [simp]: "andthen (ok v) f = f v"
  by (rule ext) (simp add: andthen_def ok_def)

lemma andthen_throw [simp]: "andthen (throw e) f = throw e"
  by (rule ext) (simp add: andthen_def throw_def)

lemma andthen_invoke:
  "andthen (invoke ev r) f s = (case r of Inl e \<Rightarrow> (Inl e, s @ [ev]) | Inr v \<Rightarrow> f v (s @ [ev]))"
  by (simp add: andthen_def invoke_def split: sum.splits)

lemma dtype_squeeze [simp]: "dtype (squeeze a) = dtype a"
  by (simp add: squeeze_def)

lemma regression_run:
  "regression sk performance (xa, xb) (ya, yb) model metric mk ek (swa, swb) s =
    (case (case model of None \<Rightarrow> Ridge sk mk | Some m \<Rightarrow> Inr m) of
       Inl e \<Rightarrow> (Inl e, s @ made model (EvRidge mk))
     | Inr m0 \<Rightarrow>
        (case sk_fit sk m0 xa ya swa of
           Inl e \<Rightarrow> (Inl e, s @ made model (EvRidge mk) @ [EvFit m0 xa ya swa])
         | Inr m1 \<Rightarrow>
            (if metric = ''score'' then
               (map_sum id (\<lambda>v. (v, m1)) (sk_score sk m1 xb yb swb),
                s @ made model (EvRidge mk) @ [EvFit m0 xa ya swa, EvScore m1 xb yb swb])
             else (case performance metric of
                 None \<Rightarrow> (Inl (AttributeError metric),
                           s @ made model (EvRidge mk) @ [EvFit m0 xa ya swa, EvGetattr metric])
               | Some func \<Rightarrow>
                  (case sk_predict sk m1 xb of
                     Inl e \<Rightarrow> (Inl e, s @ made model (EvRidge mk) @
                                 [EvFit m0 xa ya swa, EvGetattr metric, EvPredict m1 xb])
                   | Inr yp \<Rightarrow> (map_sum id (\<lambda>v. (v, m1)) (func yb yp swb ek),
                                 s @ made model (EvRidge mk) @
                                 [EvFit m0 xa ya swa, EvGetattr metric, EvPredict m1 xb,
                                  EvMetric metric yb yp swb ek]))))))"
  by (simp add: regression_def andthen_def invoke_def ok_def getattr_performance_def made_def
      split: option.splits sum.splits)

lemma classification_run:
  "classification sk performance (xa, xb) (ya, yb) model metric mk ek (swa, swb) s =
    (case (case model of None \<Rightarrow> RidgeClassifier sk mk | Some m \<Rightarrow> Inr m) of
       Inl e \<Rightarrow> (Inl e, s @ made model (EvRidgeClassifier mk))
     | Inr m0 \<Rightarrow>
        (case sk_fit sk m0 xa ya swa of
           Inl e \<Rightarrow> (Inl e, s @ made model (EvRidgeClassifier mk) @ [EvFit m0 xa ya swa])
         | Inr m1 \<Rightarrow>
            (if metric = ''score'' then
               (map_sum id (\<lambda>v. (v, m1)) (sk_score sk m1 xb yb swb),
                s @ made model (EvRidgeClassifier mk) @ [EvFit m0 xa ya swa, EvScore m1 xb yb swb])
             else (case performance metric of
                 None \<Rightarrow> (Inl (AttributeError metric),
                           s @ made model (EvRidgeClassifier mk) @ [EvFit m0 xa ya swa, EvGetattr metric])
               | Some func \<Rightarrow>
                  (case sk_predict sk m1 xb of
                     Inl e \<Rightarrow> (Inl e, s @ made model (EvRidgeClassifier mk) @
                                 [EvFit m0 xa ya swa, EvGetattr metric, EvPredict m1 xb])
                   | Inr yp \<Rightarrow> (map_sum id (\<lambda>v. (v, m1)) (func yb yp swb ek),
                                 s @ made model (EvRidgeClassifier mk) @
                                 [EvFit m0 xa ya swa, EvGetattr metric, EvPredict m1 xb,
                                  EvMetric metric yb yp swb ek]))))))"
  by (simp add: classification_def andthen_def invoke_def ok_def getattr_performance_def made_def
      split: option.splits sum.splits)


lemma check_xy_dims_targets:
  "check_xy_dims (x_train, x_test) (y_train, y_test) = (a, b, c, d) \<Longrightarrow>
   c = squeeze y_train \<and> d = squeeze y_test"
  by (auto simp: check_xy_dims_def Let_def split: if_splits)

subsection \<open>Strategy selection\<close>




text \<open>
  C4, as the code has it: for a target whose element type is none of \<open>float32\<close>,
  \<open>float64\<close>, \<open>int32\<close>, \<open>int64\<close>, \<open>select_model\<close> raises nothing and returns \<open>None\<close>;
  \<open>run_task\<close> goes on to its loop and aborts with a \<open>TypeError\<close> when it calls that
  \<open>None\<close> for the first requested metric, before any collaborator has been called.
\<close>

theorem unsupported_dtype_no_strategy:
  assumes "dtype y_train \<notin> {Float32, Float64, Int32, Int64}"
    and "metric_names metric \<noteq> []"
  shows "select_model y_train = None \<and>
         run_task sk performance (x_train, x_test) (y_train, y_test) metric kwargs s =
           (Inl (TypeError ''NoneType object is not callable''), s)"
proof -
  have sel: "select_model (squeeze y_train) = None" "select_model y_train = None"
    using assms(1) by (auto simp: select_model_def)
  obtain m ms where ms: "metric_names metric = m # ms"
    using assms(2) by (cases "metric_names metric") auto
  obtain a b c d where chk: "check_xy_dims (x_train, x_test) (y_train, y_test) = (a, b, c, d)"
    by (cases "check_xy_dims (x_train, x_test) (y_train, y_test)") auto
  then have c: "c = squeeze y_train" using check_xy_dims_targets by blast
  show ?thesis
    by (simp add: sel run_task_def chk c ms call_func_def throw_def)
qed

theorem unsupported_dtype_no_strategy_witness:
  "select_model (vec Complex128 [1, 2, 3]) = None \<and>
   run_task stub_sklearn stub_performance
     (col_matrix Float64 [1, 2, 3], col_matrix Float64 [1, 2])
     (vec Complex128 [1, 2, 3], vec Complex128 [1, 2]) (MetricStr ''score'') no_kwargs [] =
     (Inl (TypeError ''NoneType object is not callable''), [])"
proof -
  have "dtype (vec Complex128 [1, 2, 3]) \<notin> {Float32, Float64, Int32, Int64}"
    by (simp add: vec_def)
  moreover have "metric_names (MetricStr ''score'') \<noteq> []"
    by simp
  ultimately show ?thesis
    by (rule unsupported_dtype_no_strategy)
qed

text \<open>
  A boolean target is neither floating-point nor integer, and selection returns no
  strategy for it rather than failing.
\<close>

theorem select_model_bool_counterexample:
  "\<not> is_floating (dtype (vec Bool [1, 0, 1])) \<and> \<not> is_integer (dtype (vec Bool [1, 0, 1])) \<and>
   select_model (vec Bool [1, 0, 1]) = None"
  by (simp add: select_model_def vec_def)

subsection \<open>Shape normalisation\<close>

text \<open>
  C3, as the code has it: \<open>check_xy_dims\<close> raises nothing. When the train and test state
  arrays differ in dimensionality and are not both of more than two dimensions (one
  1-D and the other 2-D, say), both are passed on unchanged; only the targets are
  squeezed.
\<close>

theorem check_xy_dims_passes_mismatch:
  assumes "ndim x_train \<noteq> ndim x_test" and "ndim x_train \<le> 2 \<or> ndim x_test \<le> 2"
  shows "check_xy_dims (x_train, x_test) (y_train, y_test) =
           (x_train, x_test, squeeze y_train, squeeze y_test)"
  using assms by (auto simp: check_xy_dims_def)

theorem check_xy_dims_passes_mismatch_witness:
  "check_xy_dims (col_matrix Float64 [1, 2, 3], vec Float64 [1, 2])
     (col_matrix Float64 [1, 2, 3], col_matrix Float64 [1, 2]) =
     (col_matrix Float64 [1, 2, 3], vec Float64 [1, 2], vec Float64 [1, 2, 3], vec Float64 [1, 2])"
proof -
  have "ndim (col_matrix Float64 [1, 2, 3]) \<noteq> ndim (vec Float64 [1, 2])"
    by (simp add: ndim_def col_matrix_def vec_def)
  moreover have "ndim (col_matrix Float64 [1, 2, 3]) \<le> 2 \<or> ndim (vec Float64 [1, 2]) \<le> 2"
    by (simp add: ndim_def col_matrix_def)
  ultimately have "check_xy_dims (col_matrix Float64 [1, 2, 3], vec Float64 [1, 2])
     (col_matrix Float64 [1, 2, 3], col_matrix Float64 [1, 2]) =
     (col_matrix Float64 [1, 2, 3], vec Float64 [1, 2],
      squeeze (col_matrix Float64 [1, 2, 3]), squeeze (col_matrix Float64 [1, 2]))"
    by (rule check_xy_dims_passes_mismatch)
  then show ?thesis
    by (simp add: squeeze_def col_matrix_def vec_def)
qed

text \<open>
  A 1-D train array next to a 2-D test array: normalisation returns both as they came,
  and reports no error.
\<close>

theorem check_xy_dims_mismatch_counterexample:
  "ndim \<lparr>shape = [3], dtype = Float64, data = [1, 2, 3]\<rparr> = 1 \<and>
   ndim \<lparr>shape = [2, 2], dtype = Float64, data = [1, 2, 3, 4]\<rparr> = 2 \<and>
   check_xy_dims (\<lparr>shape = [3], dtype = Float64, data = [1, 2, 3]\<rparr>,
                  \<lparr>shape = [2, 2], dtype = Float64, data = [1, 2, 3, 4]\<rparr>)
                 (\<lparr>shape = [3], dtype = Float64, data = [1, 2, 3]\<rparr>,
                  \<lparr>shape = [2], dtype = Float64, data = [1, 2]\<rparr>) =
     (\<lparr>shape = [3], dtype = Float64, data = [1, 2, 3]\<rparr>,
      \<lparr>shape = [2, 2], dtype = Float64, data = [1, 2, 3, 4]\<rparr>,
      \<lparr>shape = [3], dtype = Float64, data = [1, 2, 3]\<rparr>,
      \<lparr>shape = [2], dtype = Float64, data = [1, 2]\<rparr>)"
  by (simp add: check_xy_dims_def ndim_def squeeze_def)

subsection \<open>Fitting\<close>

lemma regression_trace:
  assumes run: "regression sk performance (xa, xb) (ya, yb) model metric mk ek (swa, swb) s = (Inr r, s')"
  shows "\<exists>evs m. s' = s @ evs \<and> filter is_fit evs = [EvFit m xa ya swa] \<and>
         length (filter is_new evs) = (if model = None then 1 else 0) \<and>
         concat (map scoring_model evs) = concat (map (fitted sk) evs)"
proof -
  let ?pre = "made model (EvRidge mk)"
  have pre: "filter is_fit ?pre = []" "length (filter is_new ?pre) = (if model = None then 1 else 0)"
    "concat (map scoring_model ?pre) = []" "concat (map (fitted sk) ?pre) = []"
    by (simp_all add: made_def split: option.splits)
  obtain m0 where m0: "(case model of None \<Rightarrow> Ridge sk mk | Some m \<Rightarrow> Inr m) = Inr m0"
    using run by (cases "case model of None \<Rightarrow> Ridge sk mk | Some m \<Rightarrow> Inr m")
      (simp_all add: regression_run)
  obtain m1 where m1: "sk_fit sk m0 xa ya swa = Inr m1"
    using run m0 by (cases "sk_fit sk m0 xa ya swa") (simp_all add: regression_run)
  show ?thesis
  proof (cases "metric = ''score''")
    case True
    with run m0 m1 have "s' = s @ (?pre @ [EvFit m0 xa ya swa, EvScore m1 xb yb swb])"
      by (simp add: regression_run)
    moreover have "filter is_fit (?pre @ [EvFit m0 xa ya swa, EvScore m1 xb yb swb]) =
        [EvFit m0 xa ya swa]"
      by (simp add: pre)
    moreover have "length (filter is_new (?pre @ [EvFit m0 xa ya swa, EvScore m1 xb yb swb])) =
        (if model = None then 1 else 0)"
      by (simp add: pre)
    moreover have "concat (map scoring_model (?pre @ [EvFit m0 xa ya swa, EvScore m1 xb yb swb])) =
        concat (map (fitted sk) (?pre @ [EvFit m0 xa ya swa, EvScore m1 xb yb swb]))"
      by (simp add: pre m1)
    ultimately show ?thesis by blast
  next
    case False
    obtain func where f: "performance metric = Some func"
      using run m0 m1 False by (cases "performance metric") (simp_all add: regression_run)
    obtain yp where yp: "sk_predict sk m1 xb = Inr yp"
      using run m0 m1 False f by (cases "sk_predict sk m1 xb") (simp_all add: regression_run)
    let ?evs = "?pre @ [EvFit m0 xa ya swa, EvGetattr metric, EvPredict m1 xb,
                  EvMetric metric yb yp swb ek]"
    from run m0 m1 False f yp have "s' = s @ ?evs"
      by (simp add: regression_run)
    moreover have "filter is_fit ?evs = [EvFit m0 xa ya swa]"
      by (simp add: pre)
    moreover have "length (filter is_new ?evs) = (if model = None then 1 else 0)"
      by (simp add: pre)
    moreover have "concat (map scoring_model ?evs) = concat (map (fitted sk) ?evs)"
      by (simp add: pre m1)
    ultimately show ?thesis by blast
  qed
qed

lemma classification_trace:
  assumes run: "classification sk performance (xa, xb) (ya, yb) model metric mk ek (swa, swb) s = (Inr r, s')"
  shows "\<exists>evs m. s' = s @ evs \<and> filter is_fit evs = [EvFit m xa ya swa] \<and>
         length (filter is_new evs) = (if model = None then 1 else 0) \<and>
         concat (map scoring_model evs) = concat (map (fitted sk) evs)"
proof -
  let ?pre = "made model (EvRidgeClassifier mk)"
  have pre: "filter is_fit ?pre = []" "length (filter is_new ?pre) = (if model = None then 1 else 0)"
    "concat (map scoring_model ?pre) = []" "concat (map (fitted sk) ?pre) = []"
    by (simp_all add: made_def split: option.splits)
  obtain m0 where m0: "(case model of None \<Rightarrow> RidgeClassifier sk mk | Some m \<Rightarrow> Inr m) = Inr m0"
    using run by (cases "case model of None \<Rightarrow> RidgeClassifier sk mk | Some m \<Rightarrow> Inr m")
      (simp_all add: classification_run)
  obtain m1 where m1: "sk_fit sk m0 xa ya swa = Inr m1"
    using run m0 by (cases "sk_fit sk m0 xa ya swa") (simp_all add: classification_run)
  show ?thesis
  proof (cases "metric = ''score''")
    case True
    with run m0 m1 have "s' = s @ (?pre @ [EvFit m0 xa ya swa, EvScore m1 xb yb swb])"
      by (simp add: classification_run)
    moreover have "filter is_fit (?pre @ [EvFit m0 xa ya swa, EvScore m1 xb yb swb]) =
        [EvFit m0 xa ya swa]"
      by (simp add: pre)
    moreover have "length (filter is_new (?pre @ [EvFit m0 xa ya swa, EvScore m1 xb yb swb])) =
        (if model = None then 1 else 0)"
      by (simp add: pre)
    moreover have "concat (map scoring_model (?pre @ [EvFit m0 xa ya swa, EvScore m1 xb yb swb])) =
        concat (map (fitted sk) (?pre @ [EvFit m0 xa ya swa, EvScore m1 xb yb swb]))"
      by (simp add: pre m1)
    ultimately show ?thesis by blast
  next
    case False
    obtain func where f: "performance metric = Some func"
      using run m0 m1 False by (cases "performance metric") (simp_all add: classification_run)
    obtain yp where yp: "sk_predict sk m1 xb = Inr yp"
      using run m0 m1 False f by (cases "sk_predict sk m1 xb") (simp_all add: classification_run)
    let ?evs = "?pre @ [EvFit m0 xa ya swa, EvGetattr metric, EvPredict m1 xb,
                  EvMetric metric yb yp swb ek]"
    from run m0 m1 False f yp have "s' = s @ ?evs"
      by (simp add: classification_run)
    moreover have "filter is_fit ?evs = [EvFit m0 xa ya swa]"
      by (simp add: pre)
    moreover have "length (filter is_new ?evs) = (if model = None then 1 else 0)"
      by (simp add: pre)
    moreover have "concat (map scoring_model ?evs) = concat (map (fitted sk) ?evs)"
      by (simp add: pre m1)
    ultimately show ?thesis by blast
  qed
qed

lemma call_func_trace:
  assumes "call_func func sk performance (xa, xb) (ya, yb) metric kwargs s = (Inr r, s')"
  shows "\<exists>evs m. s' = s @ evs \<and> filter is_fit evs = [EvFit m xa ya (sw_train_of kwargs)] \<and>
           length (filter is_new evs) = (if kw_model kwargs = None then 1 else 0) \<and>
           concat (map scoring_model evs) = concat (map (fitted sk) evs)"
proof (cases func)
  case None
  with assms show ?thesis by (simp add: call_func_def throw_def)
next
  case (Some st)
  obtain swa swb where sw: "or_default (kw_sample_weight kwargs) (None, None) = (swa, swb)"
    by (cases "or_default (kw_sample_weight kwargs) (None, None)") auto
  show ?thesis
  proof (cases st)
    case Regression
    with assms Some sw show ?thesis
      using regression_trace [of sk performance xa xb ya yb "kw_model kwargs" metric _ _ swa swb s r s']
      by (simp add: call_func_def sw_train_of_def)
  next
    case Classification
    with assms Some sw show ?thesis
      using classification_trace [of sk performance xa xb ya yb "kw_model kwargs" metric _ _ swa swb s r s']
      by (simp add: call_func_def sw_train_of_def)
  qed
qed

lemma sw_train_of_refitted [simp]: "sw_train_of (refitted kwargs model) = sw_train_of kwargs"
  by (simp add: sw_train_of_def refitted_def split: option.splits)

lemma kw_model_refitted [simp]: "kw_model (refitted kwargs model) = None \<longleftrightarrow> kw_model kwargs = None"
  by (simp add: refitted_def split: option.splits)

lemma run_task_loop_trace:
  "run_task_loop func sk performance (xa, xb) (ya, yb) kwargs ms vars s = (Inr r, s')
   \<Longrightarrow> \<exists>evs. s' = s @ evs \<and> length (filter is_fit evs) = length ms \<and>
         (\<forall>ev \<in> set (filter is_fit evs). \<exists>m. ev = EvFit m xa ya (sw_train_of kwargs)) \<and>
         length (filter is_new evs) = (if kw_model kwargs = None then length ms else 0) \<and>
         concat (map scoring_model evs) = concat (map (fitted sk) evs)"
proof (induction ms arbitrary: kwargs vars s)
  case Nil
  then show ?case by (simp add: ok_def)
next
  case (Cons m ms)
  from Cons.prems obtain v model s1 where
    step: "call_func func sk performance (xa, xb) (ya, yb) m kwargs s = (Inr (v, model), s1)"
    and rest: "run_task_loop func sk performance (xa, xb) (ya, yb)
                 (refitted kwargs model) ms (AList.update m v (fst vars), Some model) s1 = (Inr r, s')"
    by (auto simp: andthen_def split: sum.splits prod.splits)
  from call_func_trace [OF step] obtain evs1 m1 where
    e1: "s1 = s @ evs1" "filter is_fit evs1 = [EvFit m1 xa ya (sw_train_of kwargs)]"
      "length (filter is_new evs1) = (if kw_model kwargs = None then 1 else 0)"
      "concat (map scoring_model evs1) = concat (map (fitted sk) evs1)"
    by blast
  from Cons.IH [OF rest] obtain evs2 where
    e2: "s' = s1 @ evs2" "length (filter is_fit evs2) = length ms"
      "\<forall>ev \<in> set (filter is_fit evs2). \<exists>m. ev = EvFit m xa ya (sw_train_of kwargs)"
      "length (filter is_new evs2) = (if kw_model kwargs = None then length ms else 0)"
      "concat (map scoring_model evs2) = concat (map (fitted sk) evs2)"
    by auto
  show ?case
    by (rule exI [of _ "evs1 @ evs2"]) (use e1 e2 in auto)
qed

text \<open>
  C2, as the code has it: in a call of \<open>run_task\<close> that returns, the estimator is fitted
  once for every requested metric, each time on the normalised training states and
  targets and the training sample weight; when no estimator was passed in, a fresh
  default estimator is built for every metric. The estimators the scoring calls work on
  are, in order, the estimators these fits left behind: every metric is computed from
  the estimator fitted for it.
\<close>

theorem run_task_fits_once_per_metric:
  assumes "run_task sk performance reservoir_states target metric kwargs [] = (Inr (df_res, model), tr)"
    and "check_xy_dims reservoir_states target = (x_train, x_test, y_train, y_test)"
  shows "length (filter is_fit tr) = length (metric_names metric) \<and>
         (\<forall>ev \<in> set (filter is_fit tr). \<exists>m. ev = EvFit m x_train y_train (sw_train_of kwargs)) \<and>
         length (filter is_new tr) = (if kw_model kwargs = None then length (metric_names metric) else 0) \<and>
         concat (map scoring_model tr) = concat (map (fitted sk) tr)"
proof -
  from assms obtain r where
    "run_task_loop (select_model y_train) sk performance (x_train, x_test) (y_train, y_test)
       kwargs (metric_names metric) ([], None) [] = (Inr r, tr)"
    by (auto simp: run_task_def andthen_def ok_def throw_def
        split: sum.splits prod.splits option.splits)
  from run_task_loop_trace [OF this] show ?thesis by auto
qed

theorem run_task_fits_once_per_metric_witness:
  "length (filter is_fit (snd (run_task stub_sklearn stub_performance
      (col_matrix Float64 [1, 2, 3], col_matrix Float64 [1, 2])
      (vec Float64 [1, 2, 3], vec Float64 [1, 2])
      (MetricSeq [''score'', ''r2_score'']) no_kwargs []))) =
   length (metric_names (MetricSeq [''score'', ''r2_score'']))"
proof -
  let ?run = "run_task stub_sklearn stub_performance
      (col_matrix Float64 [1, 2, 3], col_matrix Float64 [1, 2])
      (vec Float64 [1, 2, 3], vec Float64 [1, 2])
      (MetricSeq [''score'', ''r2_score'']) no_kwargs []"
  have "fst ?run =
    Inr (\<lparr>df_columns = [''score'', ''r2_score''],
           df_rows = [[(''score'', 1), (''r2_score'', 2)]]\<rparr>, 1)"
    by code_simp
  then have run: "?run =
    (Inr (\<lparr>df_columns = [''score'', ''r2_score''],
           df_rows = [[(''score'', 1), (''r2_score'', 2)]]\<rparr>, 1), snd ?run)"
    by (simp add: prod_eq_iff)
  have chk: "check_xy_dims (col_matrix Float64 [1, 2, 3], col_matrix Float64 [1, 2])
      (vec Float64 [1, 2, 3], vec Float64 [1, 2]) =
    (col_matrix Float64 [1, 2, 3], col_matrix Float64 [1, 2],
     vec Float64 [1, 2, 3], vec Float64 [1, 2])"
    by (simp add: check_xy_dims_def ndim_def col_matrix_def vec_def squeeze_def)
  from run_task_fits_once_per_metric [OF run chk] show ?thesis
    by blast
qed

text \<open>
  Two requested metrics: the call returns a row with both, and the trace holds two
  fits, not one.
\<close>

theorem run_task_two_fits_counterexample:
  "fst (run_task stub_sklearn stub_performance
     (col_matrix Float64 [1, 2, 3], col_matrix Float64 [1, 2])
     (vec Float64 [1, 2, 3], vec Float64 [1, 2])
     (MetricSeq [''score'', ''r2_score'']) no_kwargs []) =
     Inr (\<lparr>df_columns = [''score'', ''r2_score''],
           df_rows = [[(''score'', 1), (''r2_score'', 2)]]\<rparr>, 1) \<and>
   length (filter is_fit (snd (run_task stub_sklearn stub_performance
     (col_matrix Float64 [1, 2, 3], col_matrix Float64 [1, 2])
     (vec Float64 [1, 2, 3], vec Float64 [1, 2])
     (MetricSeq [''score'', ''r2_score'']) no_kwargs []))) = 2"
  by code_simp

subsection \<open>Scoring\<close>
















section \<open>Properties of examples/example1_sims.py\<close>

subsection \<open>Running the effects\<close>

lemma andthen_InrD:
  "andthen p f s = (Inr r, s') \<Longrightarrow> \<exists>v s1. p s = (Inr v, s1) \<and> f v s1 = (Inr r, s')"
  by (auto simp: andthen_def split: prod.splits sum.splits)

lemma invoke_w_Inr [simp]:
  "invoke_w ev r s = (Inr v, s1) \<longleftrightarrow> r = Inr v \<and> s1 = s\<lparr>trace := trace s @ [ev]\<rparr>"
  by (auto simp: invoke_w_def)

lemma lift_Inr [simp]: "lift r s = (Inr v, s1) \<longleftrightarrow> r = Inr v \<and> s1 = s"
  by (auto simp: lift_def)

lemma ok_Inr [simp]: "ok v s = (Inr r, s') \<longleftrightarrow> r = v \<and> s' = s"
  by (auto simp: ok_def)

lemma to_csv_Inr [simp]:
  "to_csv path df s = (Inr u, s') \<longleftrightarrow>
     s' = s\<lparr>files := AList.update path df (files s), trace := trace s @ [EvToCsv path]\<rparr>"
  by (auto simp: to_csv_def)

subsection \<open>Numbers and tables\<close>




lemma length_ALPHAS: "length ALPHAS = 40"
  by (simp add: ALPHAS_def linspace_def)


lemma column_set_column:
  "column c (set_column c v df) = replicate (length (df_rows df)) (Some v)"
  by (simp add: column_def set_column_def comp_def AList.update_conv' map_replicate_const)

lemma select_columns_Inr:
  "select_columns cols df = Inr t \<Longrightarrow>
   df_rows t = map (filter (\<lambda>kv. fst kv \<in> set cols)) (df_rows df)"
  by (auto simp: select_columns_def split: list.splits)

lemma pd_concat_Inr: "pd_concat dfs = Inr t \<Longrightarrow> df_rows t = concat (map df_rows dfs)"
  by (auto simp: pd_concat_def split: if_splits)

subsection \<open>The sweep\<close>

lemma sweep_events_Nil [simp]: "sweep_events w w_in out xtr xte ytr yte [] Xs = []"
  by (simp add: sweep_events_def)

lemma sweep_events_Cons [simp]:
  "sweep_events w w_in out xtr xte ytr yte (a # alphas) (X # Xs) =
     [EvSimulate (np_scale a w) xtr w_in out, EvSimulate (np_scale a w) xte w_in out,
      EvRunTask X (ytr, yte)] @ sweep_events w w_in out xtr xte ytr yte alphas Xs"
  by (simp add: sweep_events_def)

lemma sweep_Inr:
  "sweep col glob conn w_in out xtr xte ytr yte alphas (acc, esn, ro) s = (Inr (dfs, esn', ro'), s')
   \<Longrightarrow> \<exists>steps. length steps = length alphas \<and>
         dfs = acc @ map2 (\<lambda>alpha step. set_column ''alpha'' (Num (np_round alpha 3)) (snd step))
                       alphas steps \<and>
         trace s' = trace s @
           sweep_events (conn_w col conn) w_in out xtr xte ytr yte alphas (map fst steps) \<and>
         files s' = files s \<and>
         (\<forall>step \<in> set steps. \<exists>ro1 ro2.
            readout_run_task col ro1 (fst step) (ytr, yte) METRIC (RSN_MAPPING glob) metric_kwargs =
              Inr (snd step, ro2))"
proof (induction alphas arbitrary: acc esn ro s)
  case Nil
  then show ?case by simp
next
  case (Cons a alphas)
  let ?w = "np_scale a (conn_w col conn)"
  from Cons.prems obtain rs_train rs_test r2 df_res ro1 where
    rt: "readout_run_task col ro (rs_train, rs_test) (ytr, yte) METRIC (RSN_MAPPING glob)
           metric_kwargs = Inr (df_res, ro1)"
    and rest: "sweep col glob conn w_in out xtr xte ytr yte alphas
                 (acc @ [set_column ''alpha'' (Num (np_round a 3)) df_res],
                  esn\<lparr>esn_w := ?w, esn_rest := r2\<rparr>, ro1)
                 (s\<lparr>trace := trace s @ [EvSimulate ?w xtr w_in out, EvSimulate ?w xte w_in out,
                     EvRunTask (rs_train, rs_test) (ytr, yte)]\<rparr>) = (Inr (dfs, esn', ro'), s')"
    by (auto simp: Let_def dest!: andthen_InrD split: prod.splits)
  define s3 where "s3 = s\<lparr>trace := trace s @ [EvSimulate ?w xtr w_in out,
                     EvSimulate ?w xte w_in out, EvRunTask (rs_train, rs_test) (ytr, yte)]\<rparr>"
  have s3: "trace s3 = trace s @ [EvSimulate ?w xtr w_in out, EvSimulate ?w xte w_in out,
               EvRunTask (rs_train, rs_test) (ytr, yte)]" "files s3 = files s"
    by (simp_all add: s3_def)
  note rest = rest [folded s3_def]
  from Cons.IH [OF rest] obtain steps where
    st: "length steps = length alphas"
      "dfs = (acc @ [set_column ''alpha'' (Num (np_round a 3)) df_res]) @
         map2 (\<lambda>alpha step. set_column ''alpha'' (Num (np_round alpha 3)) (snd step)) alphas steps"
      "trace s' = trace s3 @
         sweep_events (conn_w col conn) w_in out xtr xte ytr yte alphas (map fst steps)"
      "files s' = files s3"
      "\<forall>step \<in> set steps. \<exists>ro1 ro2.
         readout_run_task col ro1 (fst step) (ytr, yte) METRIC (RSN_MAPPING glob) metric_kwargs =
           Inr (snd step, ro2)"
    by blast
  show ?case
    by (rule exI [of _ "((rs_train, rs_test), df_res) # steps"]) (use st s3 rt in auto)
qed

subsection \<open>One workflow\<close>

lemma run_workflow_Inr:
  assumes "run_workflow col glob g w x y rewire filename s = (Inr u, s')"
  shows "\<exists>conn0 conn1 conn w_in out xtr xte ytr yte steps table.
     Conn col w = Inr conn0 \<and>
     (if rewire then randomize col g conn0 10 else Inr conn0) = Inr conn1 \<and>
     scale_and_normalize col conn1 = Inr conn \<and>
     train_test_split col x y = Inr (xtr, xte, ytr, yte) \<and>
     length steps = length ALPHAS \<and>
     (\<forall>step \<in> set steps. \<exists>ro1 ro2.
        readout_run_task col ro1 (fst step) (ytr, yte) METRIC (RSN_MAPPING glob) metric_kwargs =
          Inr (snd step, ro2)) \<and>
     trace s' = trace s @ workflow_prelude w rewire (conn_w col conn) y @ [EvTrainTestSplit x y] @
       sweep_events (conn_w col conn) w_in out xtr xte ytr yte ALPHAS (map fst steps) @
       [EvToCsv (scores_path glob filename)] \<and>
     files s' = AList.update (scores_path glob filename) table (files s) \<and>
     df_rows table =
       map (filter (\<lambda>kv. fst kv \<in> set [''alpha'', ''module'', ''n_nodes'', METRIC ! 0]))
         (concat (map df_rows
            (map2 (\<lambda>alpha step. set_column ''alpha'' (Num (np_round alpha 3)) (snd step))
               ALPHAS steps)))"
proof -
  from assms obtain conn0 conn1 conn out w_in rest ro xtr xte ytr yte dfs esn' ro' s2 cat table
    where c0: "Conn col w = Inr conn0"
    and c1: "(if rewire then randomize col g conn0 10 else Inr conn0) = Inr conn1"
    and c2: "scale_and_normalize col conn1 = Inr conn"
    and split: "train_test_split col x y = Inr (xtr, xte, ytr, yte)"
    and sw: "sweep col glob conn w_in out xtr xte ytr yte ALPHAS
               ([], \<lparr>esn_w = conn_w col conn, esn_rest = rest\<rparr>, ro)
               (s\<lparr>trace := trace s @ workflow_prelude w rewire (conn_w col conn) y @
                    [EvTrainTestSplit x y]\<rparr>) = (Inr (dfs, esn', ro'), s2)"
    and cat: "pd_concat dfs = Inr cat"
    and sel: "select_columns [''alpha'', ''module'', ''n_nodes'', METRIC ! 0] cat = Inr table"
    and fin: "s' = s2\<lparr>files := AList.update (scores_path glob filename) table (files s2),
                       trace := trace s2 @ [EvToCsv (scores_path glob filename)]\<rparr>"
    unfolding run_workflow_def workflow_prelude_def
    by (auto simp: Let_def dest!: andthen_InrD split: prod.splits if_splits)
  from sweep_Inr [OF sw] obtain steps where
    st: "length steps = length ALPHAS"
      "dfs = [] @ map2 (\<lambda>alpha step. set_column ''alpha'' (Num (np_round alpha 3)) (snd step))
                    ALPHAS steps"
      "trace s2 = trace s @ workflow_prelude w rewire (conn_w col conn) y @ [EvTrainTestSplit x y] @
         sweep_events (conn_w col conn) w_in out xtr xte ytr yte ALPHAS (map fst steps)"
      "files s2 = files s"
      "\<forall>step \<in> set steps. \<exists>ro1 ro2.
         readout_run_task col ro1 (fst step) (ytr, yte) METRIC (RSN_MAPPING glob) metric_kwargs =
           Inr (snd step, ro2)"
    by auto
  have rows: "df_rows table =
       map (filter (\<lambda>kv. fst kv \<in> set [''alpha'', ''module'', ''n_nodes'', METRIC ! 0]))
         (concat (map df_rows
            (map2 (\<lambda>alpha step. set_column ''alpha'' (Num (np_round alpha 3)) (snd step))
               ALPHAS steps)))"
    using select_columns_Inr [OF sel] pd_concat_Inr [OF cat] st(2) by simp
  show ?thesis
    apply (rule exI [of _ conn0], rule exI [of _ conn1], rule exI [of _ conn])
    apply (rule exI [of _ w_in], rule exI [of _ out])
    apply (rule exI [of _ xtr], rule exI [of _ xte], rule exI [of _ ytr], rule exI [of _ yte])
    apply (rule exI [of _ steps], rule exI [of _ table])
    using c0 c1 c2 split st rows fin
    apply simp
    done
qed

lemma sweep_events_facts:
  assumes "length alphas = length Xs"
  shows "filter is_split (sweep_events w w_in out xtr xte ytr yte alphas Xs) = []"
    and "length (filter is_run_task (sweep_events w w_in out xtr xte ytr yte alphas Xs)) =
           length alphas"
    and "list_all (uses_partition xtr xte ytr yte) (sweep_events w w_in out xtr xte ytr yte alphas Xs)"
    and "concat (map simulate_w (sweep_events w w_in out xtr xte ytr yte alphas Xs)) =
           concat (map (\<lambda>alpha. [np_scale alpha w, np_scale alpha w]) alphas)"
    and "tocsv_paths (sweep_events w w_in out xtr xte ytr yte alphas Xs) = []"
    and "filter is_randomize (sweep_events w w_in out xtr xte ytr yte alphas Xs) = []"
    and "filter is_pool_event (sweep_events w w_in out xtr xte ytr yte alphas Xs) = []"
  using assms by (induction alphas Xs rule: list_induct2) (simp_all add: tocsv_paths_def)

lemma workflow_prelude_facts:
  "filter is_split (workflow_prelude w rewire wb y) = []"
  "filter is_simulate (workflow_prelude w rewire wb y) = []"
  "filter is_run_task (workflow_prelude w rewire wb y) = []"
  "concat (map simulate_w (workflow_prelude w rewire wb y)) = []"
  "tocsv_paths (workflow_prelude w rewire wb y) = []"
  "filter is_pool_event (workflow_prelude w rewire wb y) = []"
  "filter is_randomize (workflow_prelude w rewire wb y) = (if rewire then [EvRandomize 10] else [])"
  by (simp_all add: workflow_prelude_def tocsv_paths_def)




text \<open>
  C8: in a workflow that completes, \<open>train_test_split\<close> is called once, on the input
  and target signals, after the set-up calls and before the first simulation; every
  simulation of the sweep is driven by the train or the test input of that one split,
  and every one of the \<open>length ALPHAS\<close> readout calls gets its train and test targets.
\<close>

theorem split_once_before_sweep:
  assumes run: "run_workflow col glob g w x y rewire filename s = (Inr u, s')"
  shows "\<exists>xtr xte ytr yte pre loop.
           train_test_split col x y = Inr (xtr, xte, ytr, yte) \<and>
           trace s' = trace s @ pre @ [EvTrainTestSplit x y] @ loop \<and>
           filter is_split (pre @ loop) = [] \<and>
           filter is_simulate pre = [] \<and> filter is_run_task pre = [] \<and>
           length (filter is_run_task loop) = length ALPHAS \<and>
           list_all (uses_partition xtr xte ytr yte) loop"
proof -
  from run_workflow_Inr [OF run] obtain conn w_in out xtr xte ytr yte
    and steps :: "((ndarray \<times> ndarray) \<times> cell dataframe) list" where
    split: "train_test_split col x y = Inr (xtr, xte, ytr, yte)"
    and len: "length steps = length ALPHAS"
    and tr: "trace s' = trace s @ workflow_prelude w rewire (conn_w col conn) y @
       [EvTrainTestSplit x y] @
       sweep_events (conn_w col conn) w_in out xtr xte ytr yte ALPHAS (map fst steps) @
       [EvToCsv (scores_path glob filename)]"
    by (elim exE conjE) (rule that, assumption+)
  have l: "length ALPHAS = length (map fst steps)"
    using len by simp
  let ?pre = "workflow_prelude w rewire (conn_w col conn) y"
  let ?loop = "sweep_events (conn_w col conn) w_in out xtr xte ytr yte ALPHAS (map fst steps) @
       [EvToCsv (scores_path glob filename)]"
  have "trace s' = trace s @ ?pre @ [EvTrainTestSplit x y] @ ?loop"
    using tr by simp
  moreover have "filter is_split (?pre @ ?loop) = []"
    by (simp add: workflow_prelude_facts sweep_events_facts(1) [OF l])
  moreover have "filter is_simulate ?pre = []" "filter is_run_task ?pre = []"
    by (simp_all add: workflow_prelude_facts)
  moreover have "length (filter is_run_task ?loop) = length ALPHAS"
    by (simp add: sweep_events_facts(2) [OF l])
  moreover have "list_all (uses_partition xtr xte ytr yte) ?loop"
    by (simp add: sweep_events_facts(3) [OF l])
  ultimately show ?thesis
    using split by blast
qed

text \<open>
  C10: in a workflow that completes, the weights of the simulations, in the order of
  the calls, are \<open>alpha\<close> times the weight matrix of the network as \<open>scale_and_normalize\<close>
  left it, twice (train and test) for each \<open>alpha\<close> of \<open>ALPHAS\<close> in order: every product
  is taken from that one matrix, never from the product of an earlier sweep value.
\<close>

theorem sweep_scales_fixed_base:
  assumes run: "run_workflow col glob g w x y rewire filename s = (Inr u, s')"
  shows "\<exists>conn0 conn1 conn.
           Conn col w = Inr conn0 \<and>
           (if rewire then randomize col g conn0 10 else Inr conn0) = Inr conn1 \<and>
           scale_and_normalize col conn1 = Inr conn \<and>
           concat (map simulate_w (drop (length (trace s)) (trace s'))) =
             concat (map (\<lambda>alpha. [np_scale alpha (conn_w col conn),
                                    np_scale alpha (conn_w col conn)]) ALPHAS)"
proof -
  from run_workflow_Inr [OF run] obtain conn0 conn1 conn w_in out xtr xte ytr yte
    and steps :: "((ndarray \<times> ndarray) \<times> cell dataframe) list" where
    c: "Conn col w = Inr conn0"
      "(if rewire then randomize col g conn0 10 else Inr conn0) = Inr conn1"
      "scale_and_normalize col conn1 = Inr conn"
    and len: "length steps = length ALPHAS"
    and tr: "trace s' = trace s @ workflow_prelude w rewire (conn_w col conn) y @
       [EvTrainTestSplit x y] @
       sweep_events (conn_w col conn) w_in out xtr xte ytr yte ALPHAS (map fst steps) @
       [EvToCsv (scores_path glob filename)]"
    by (elim exE conjE) (rule that, assumption+)
  have l: "length ALPHAS = length (map fst steps)"
    using len by simp
  have "concat (map simulate_w (drop (length (trace s)) (trace s'))) =
      concat (map (\<lambda>alpha. [np_scale alpha (conn_w col conn),
                             np_scale alpha (conn_w col conn)]) ALPHAS)"
    by (simp add: tr workflow_prelude_facts sweep_events_facts(4) [OF l])
  with c show ?thesis by blast
qed

subsection \<open>A concrete workflow\<close>

lemma stub_collab_simps [simp]:
  "Conn stub_collab w = Inr w"
  "randomize stub_collab g c n = Inr c"
  "scale_and_normalize stub_collab c = Inr c"
  "get_nodes stub_collab c nm = Inr (if nm = ''subctx'' then [0] else [1])"
  "conn_w stub_collab c = c"
  "conn_n_nodes stub_collab c = 2"
  "EchoStateNetwork stub_collab w a = Inr ()"
  "simulate stub_collab w e xi w_in out = Inr (xi, ())"
  "readout_select_model stub_collab y = Inr ()"
  "Readout stub_collab e = Inr ()"
  "train_test_split stub_collab x y = Inr (x, x, y, y)"
  "readout_run_task stub_collab ro X Y ms mods kw = Inr (stub_table, ())"
  "np_load stub_collab p = Inr \<lparr>shape = [2, 2], dtype = Float64, data = [0, 1, 1, 0]\<rparr>"
  by (simp_all add: stub_collab_def)

lemma stub_sweep_runs:
  "\<exists>esn' s'. sweep stub_collab glob conn w_in out xtr xte ytr yte alphas (acc, esn, ro) s =
     (Inr (acc @ map (\<lambda>a. set_column ''alpha'' (Num (np_round a 3)) stub_table) alphas, esn', ()),
      s')"
proof (induction alphas arbitrary: acc esn ro s)
  case Nil
  then show ?case by (simp add: ok_def)
next
  case (Cons a alphas)
  show ?case
    using Cons.IH [of "acc @ [set_column ''alpha'' (Num (np_round a 3)) stub_table]"]
    by (simp add: andthen_def invoke_w_def Let_def)
qed

lemma stub_workflow_runs:
  "\<exists>s'. run_workflow stub_collab glob g w x y rewire filename s = (Inr (), s')"
proof -
  let ?dfs = "map (\<lambda>a. set_column ''alpha'' (Num (np_round a 3)) stub_table) ALPHAS"
  let ?cols = "[''alpha'', ''module'', ''n_nodes'', METRIC ! 0]"
  have ne: "ALPHAS \<noteq> []"
    using length_ALPHAS by auto
  obtain cat where cat: "pd_concat ?dfs = Inr cat"
    and cols: "set (df_columns cat) = {''module'', ''n_nodes'', ''corrcoef'', ''alpha''}"
    using ne by (auto simp: pd_concat_def set_column_def stub_table_def)
  obtain table where sel: "select_columns ?cols cat = Inr table"
    by (simp add: select_columns_def cols METRIC_def)
  let ?s1 = "s\<lparr>trace := trace s @ workflow_prelude w rewire w y @ [EvTrainTestSplit x y]\<rparr>"
  obtain esn' s2 where
    sw: "sweep stub_collab glob w \<lparr>shape = [1, 2], dtype = Float64, data = [1, 0]\<rparr> [1] x x y y
           ALPHAS ([], \<lparr>esn_w = w, esn_rest = ()\<rparr>, ()) ?s1 = (Inr (?dfs, esn', ()), s2)"
    using stub_sweep_runs [of glob w "\<lparr>shape = [1, 2], dtype = Float64, data = [1, 0]\<rparr>" "[1]"
        x x y y ALPHAS "[]" "\<lparr>esn_w = w, esn_rest = ()\<rparr>" "()" ?s1, unfolded append_Nil]
    by blast
  have upt2: "[0..<2] = [0, 1]"
    by (simp add: upt_rec)
  show ?thesis
    unfolding run_workflow_def
    using sw cat sel
    by (cases rewire)
      (simp_all add: andthen_def invoke_w_def lift_def make_w_in_def workflow_prelude_def
        to_csv_def upt2)
qed


theorem split_once_before_sweep_witness:
  "\<exists>s' pre loop. run_workflow stub_collab stub_globals ()
       \<lparr>shape = [2, 2], dtype = Float64, data = [0, 1, 1, 0]\<rparr>
       (vec Float64 [1, 2, 3]) (vec Float64 [3, 2, 1]) True (Some ''net'') empty_world =
       (Inr (), s') \<and>
     trace s' = trace empty_world @ pre @
       [EvTrainTestSplit (vec Float64 [1, 2, 3]) (vec Float64 [3, 2, 1])] @ loop \<and>
     filter is_split (pre @ loop) = [] \<and>
     length (filter is_run_task loop) = length ALPHAS"
proof -
  obtain s' where run: "run_workflow stub_collab stub_globals ()
       \<lparr>shape = [2, 2], dtype = Float64, data = [0, 1, 1, 0]\<rparr>
       (vec Float64 [1, 2, 3]) (vec Float64 [3, 2, 1]) True (Some ''net'') empty_world =
       (Inr (), s')"
    using stub_workflow_runs by blast
  from split_once_before_sweep [OF run] run show ?thesis
    by blast
qed

theorem sweep_scales_fixed_base_witness:
  "\<exists>s'. run_workflow stub_collab stub_globals ()
       \<lparr>shape = [2, 2], dtype = Float64, data = [0, 1, 1, 0]\<rparr>
       (vec Float64 [1, 2, 3]) (vec Float64 [3, 2, 1]) False (Some ''net'') empty_world =
       (Inr (), s') \<and>
     concat (map simulate_w (drop (length (trace empty_world)) (trace s'))) =
       concat (map (\<lambda>alpha.
         [np_scale alpha \<lparr>shape = [2, 2], dtype = Float64, data = [0, 1, 1, 0]\<rparr>,
          np_scale alpha \<lparr>shape = [2, 2], dtype = Float64, data = [0, 1, 1, 0]\<rparr>]) ALPHAS)"
proof -
  obtain s' where run: "run_workflow stub_collab stub_globals ()
       \<lparr>shape = [2, 2], dtype = Float64, data = [0, 1, 1, 0]\<rparr>
       (vec Float64 [1, 2, 3]) (vec Float64 [3, 2, 1]) False (Some ''net'') empty_world =
       (Inr (), s')"
    using stub_workflow_runs by blast
  from sweep_scales_fixed_base [OF run] run show ?thesis
    by auto
qed

subsection \<open>Output names\<close>








subsection \<open>The ensemble\<close>












end
